theory Spec2Isabelle
  imports Complex_Main "HOL-Library.Multiset"
begin

section \<open>The exposure chart of \<open>dashboard.js\<close>\<close>

subsection \<open>Data\<close>

text \<open>
  One element of the JSON array served by \<open>/api/gamma-exposure/\<close>. The strike is a number;
  the three exposures are \<open>number|null\<close>, so they are optional here (\<open>None\<close> is \<open>null\<close> or a
  missing field). The script only compares, negates and takes absolute values of these
  numbers, all of which are exact on finite doubles, so they are modelled as reals.
\<close>

record exposure_record =
  strike_price :: real
  call_gamma_exposure :: "real option"
  put_gamma_exposure :: "real option"
  total_gamma_exposure :: "real option"

text \<open>
  A Plotly trace as \<open>createGammaExposurePlot\<close> builds it, with every key of the object
  literals. \<open>marker_color\<close> is \<open>marker.color\<close>, \<open>marker_size\<close> is \<open>marker.size\<close>,
  \<open>line_color\<close> and \<open>line_width\<close> are \<open>line.color\<close> and \<open>line.width\<close>; a key that a
  literal does not have is \<open>None\<close>.
\<close>

record trace =
  tr_y :: "real list"
  tr_x :: "real list"
  tr_name :: string
  tr_type :: string
  orientation :: "string option"
  mode :: "string option"
  line_color :: "string option"
  line_width :: "real option"
  marker_color :: "string option"
  marker_size :: "real option"
  hovertemplate :: "string option"

text \<open>The layout object: the title and every entry that depends on \<open>isDarkMode\<close>.\<close>

record layout =
  title :: string
  barmode :: string
  zerolinecolor :: string
  xaxis_gridcolor :: string
  yaxis_gridcolor :: string
  plot_bgcolor :: string
  paper_bgcolor :: string
  font_color :: string

text \<open>What is handed to \<open>Plotly.newPlot\<close>: the traces and the layout.\<close>

record plot =
  plot_data :: "trace list"
  plot_layout :: layout

subsection \<open>The pieces of \<open>createGammaExposurePlot\<close>\<close>

text \<open>
  \<open>v || 0\<close> on a value that is a number or \<open>null\<close>: \<open>null\<close> gives 0, a number gives
  itself (0 is falsy and gives 0 again).
\<close>

definition or_zero :: "real option \<Rightarrow> real" where
  "or_zero v = (case v of None \<Rightarrow> 0 | Some x \<Rightarrow> x)"

text \<open>
  \<open>[...exposureData].sort((a, b) => a.strike_price - b.strike_price)\<close>: a copy, sorted
  ascending by strike; the sort of an array is stable. \<open>sort_key\<close> is the stable insertion
  sort of the list library.
\<close>

definition sortedData :: "exposure_record list \<Rightarrow> exposure_record list" where
  "sortedData exposureData = sort_key strike_price exposureData"

text \<open>
  \<open>arr.filter(cb)\<close> where the callback receives the item, its index and the array.
\<close>

definition array_filter :: "('a \<Rightarrow> nat \<Rightarrow> 'a list \<Rightarrow> bool) \<Rightarrow> 'a list \<Rightarrow> 'a list" where
  "array_filter cb arr =
     map fst (filter (\<lambda>(item, index). cb item index arr) (zip arr [0..<length arr]))"

text \<open>The callback of the downsampling filter: \<open>step\<close> is recomputed from \<open>arr.length\<close>.\<close>

definition step_of :: "nat \<Rightarrow> nat" where
  "step_of n = max 1 (n div 20)"

definition keep_item :: "'a \<Rightarrow> nat \<Rightarrow> 'a list \<Rightarrow> bool" where
  "keep_item item index arr = (let step = step_of (length arr) in index mod step = 0)"

definition filteredData :: "exposure_record list \<Rightarrow> exposure_record list" where
  "filteredData exposureData = array_filter keep_item (sortedData exposureData)"

definition call_value :: "exposure_record \<Rightarrow> real" where
  "call_value item = or_zero (call_gamma_exposure item)"

definition put_value :: "exposure_record \<Rightarrow> real" where
  "put_value item = - \<bar>or_zero (put_gamma_exposure item)\<bar>"

definition net_value :: "exposure_record \<Rightarrow> real" where
  "net_value item = or_zero (total_gamma_exposure item)"

text \<open>
  A horizontal bar trace; the bars of real data carry a hover template, those of the
  placeholder do not.
\<close>

definition bar_trace ::
  "real list \<Rightarrow> real list \<Rightarrow> string \<Rightarrow> string \<Rightarrow> string option \<Rightarrow> trace" where
  "bar_trace ys xs nm col hover =
     \<lparr>tr_y = ys, tr_x = xs, tr_name = nm, tr_type = ''bar'',
      orientation = Some ''h'', mode = None, line_color = None, line_width = None,
      marker_color = Some col, marker_size = None, hovertemplate = hover\<rparr>"

definition line_trace :: "real list \<Rightarrow> real list \<Rightarrow> string \<Rightarrow> string \<Rightarrow> trace" where
  "line_trace ys xs nm col =
     \<lparr>tr_y = ys, tr_x = xs, tr_name = nm, tr_type = ''scatter'',
      orientation = None, mode = Some ''lines+markers'',
      line_color = Some col, line_width = Some 3,
      marker_color = None, marker_size = Some 8,
      hovertemplate = Some ''Strike: %{y}<br>Net Gamma: %{x:.2f}<extra></extra>''\<rparr>"

text \<open>The three traces of the branch \<open>exposureData.length > 0\<close>.\<close>

definition real_traces :: "exposure_record list \<Rightarrow> trace list" where
  "real_traces exposureData =
     (let fd = filteredData exposureData;
          strikes = map strike_price fd;
          callValues = map call_value fd;
          putValues = map put_value fd;
          netValues = map net_value fd
      in [bar_trace strikes callValues ''Calls (Long)'' ''#4caf50''
            (Some ''Strike: %{y}<br>Gamma: %{x:.2f}<extra></extra>''),
          bar_trace strikes putValues ''Puts (Short)'' ''#f44336''
            (Some ''Strike: %{y}<br>Gamma: %{x:.2f}<extra></extra>''),
          line_trace strikes netValues ''Net Gamma'' ''#2196f3''])"

text \<open>
  The \<open>else\<close> branch: five fixed strikes, each with a call value
  \<open>Math.random() * 100 + 20\<close> and a put value \<open>-Math.random() * 100 - 20\<close>. These are
  computed in floating point from a random number, and their digits are not modelled:
  \<open>rnd\<close> is the sequence of the values that the coming evaluations of these expressions
  give, the five call values first (\<open>rnd 0 .. rnd 4\<close>), then the five put values
  (\<open>rnd 5 .. rnd 9\<close>).
\<close>

definition sample_strikes :: "real list" where
  "sample_strikes = [5550, 5600, 5650, 5700, 5750]"

definition sample_traces :: "(nat \<Rightarrow> real) \<Rightarrow> trace list" where
  "sample_traces rnd =
     (let callValues = map (\<lambda>i. rnd i) [0..<length sample_strikes];
          putValues = map (\<lambda>i. rnd (length sample_strikes + i)) [0..<length sample_strikes]
      in [bar_trace sample_strikes callValues ''Calls (Sample)'' ''#4caf50'' None,
          bar_trace sample_strikes putValues ''Puts (Sample)'' ''#f44336'' None])"

definition make_layout :: "bool \<Rightarrow> string \<Rightarrow> layout" where
  "make_layout isDarkMode expiry =
     \<lparr>title = ''Gamma Exposure by Strike ('' @ expiry @ '')'',
      barmode = ''relative'',
      zerolinecolor = (if isDarkMode then ''#e0e0e0'' else ''#333333''),
      xaxis_gridcolor = (if isDarkMode then ''#3a4254'' else ''#d1e0d4''),
      yaxis_gridcolor = (if isDarkMode then ''#3a4254'' else ''#d1e0d4''),
      plot_bgcolor = (if isDarkMode then ''#242937'' else ''#ffffff''),
      paper_bgcolor = (if isDarkMode then ''#242937'' else ''#ffffff''),
      font_color = (if isDarkMode then ''#e0e0e0'' else ''#333333'')\<rparr>"

text \<open>
  \<open>createGammaExposurePlot(container, exposureData, expiry)\<close>, as the plot it passes to
  \<open>Plotly.newPlot\<close>. \<open>isDarkMode\<close> is what the function reads from the body's class list,
  \<open>rnd\<close> gives the placeholder values.
\<close>

definition createGammaExposurePlot ::
  "bool \<Rightarrow> (nat \<Rightarrow> real) \<Rightarrow> exposure_record list \<Rightarrow> string \<Rightarrow> plot" where
  "createGammaExposurePlot isDarkMode rnd exposureData expiry =
     \<lparr>plot_data = (if length exposureData > 0 then real_traces exposureData
                   else sample_traces rnd),
      plot_layout = make_layout isDarkMode expiry\<rparr>"

subsection \<open>Reading a chart series off the plot\<close>

text \<open>
  The chart series of the specification is the plot seen through four channels: the
  strikes are the \<open>y\<close> of the first trace (every trace carries the same \<open>y\<close>), the calls,
  puts and net values are the \<open>x\<close> of the first, second and third trace. A channel whose
  trace is absent is empty.
\<close>

definition strikes :: "plot \<Rightarrow> real list" where
  "strikes p = (case plot_data p of [] \<Rightarrow> [] | c # _ \<Rightarrow> tr_y c)"

definition calls :: "plot \<Rightarrow> real list" where
  "calls p = (case plot_data p of [] \<Rightarrow> [] | c # _ \<Rightarrow> tr_x c)"

definition puts :: "plot \<Rightarrow> real list" where
  "puts p = (case plot_data p of c # q # _ \<Rightarrow> tr_x q | _ \<Rightarrow> [])"

definition net :: "plot \<Rightarrow> real list" where
  "net p = (case plot_data p of c # q # n # _ \<Rightarrow> tr_x n | _ \<Rightarrow> [])"

definition trace_names :: "plot \<Rightarrow> string list" where
  "trace_names p = map tr_name (plot_data p)"

subsection \<open>The objects handed to \<open>Plotly.newPlot\<close>\<close>

text \<open>
  A JavaScript value: a number, a string, a boolean, an array, or an object as the list
  of its keys with their values.
\<close>

datatype js = Num real | Str string | Bool bool | Arr "js list" | Obj "(string \<times> js) list"

definition opt_key :: "string \<Rightarrow> ('a \<Rightarrow> js) \<Rightarrow> 'a option \<Rightarrow> (string \<times> js) list" where
  "opt_key k f v = (case v of None \<Rightarrow> [] | Some x \<Rightarrow> [(k, f x)])"

text \<open>A trace as the object literal of the script: the keys it has, nested as written.\<close>

definition trace_object :: "trace \<Rightarrow> js" where
  "trace_object t =
     Obj ([(''y'', Arr (map Num (tr_y t))),
           (''x'', Arr (map Num (tr_x t))),
           (''name'', Str (tr_name t)),
           (''type'', Str (tr_type t))]
          @ opt_key ''orientation'' Str (orientation t)
          @ opt_key ''mode'' Str (mode t)
          @ (if line_color t = None \<and> line_width t = None then []
             else [(''line'', Obj (opt_key ''color'' Str (line_color t)
                                   @ opt_key ''width'' Num (line_width t)))])
          @ (if marker_color t = None \<and> marker_size t = None then []
             else [(''marker'', Obj (opt_key ''color'' Str (marker_color t)
                                     @ opt_key ''size'' Num (marker_size t)))])
          @ opt_key ''hovertemplate'' Str (hovertemplate t))"

definition layout_object :: "layout \<Rightarrow> js" where
  "layout_object l =
     Obj [(''title'', Str (title l)),
          (''barmode'', Str (barmode l)),
          (''xaxis'', Obj [(''title'', Str ''Gamma Exposure''),
                           (''zeroline'', Bool True),
                           (''zerolinecolor'', Str (zerolinecolor l)),
                           (''gridcolor'', Str (xaxis_gridcolor l))]),
          (''yaxis'', Obj [(''title'', Str ''Strike Price''),
                           (''type'', Str ''category''),
                           (''autorange'', Bool True),
                           (''gridcolor'', Str (yaxis_gridcolor l))]),
          (''plot_bgcolor'', Str (plot_bgcolor l)),
          (''paper_bgcolor'', Str (paper_bgcolor l)),
          (''font'', Obj [(''color'', Str (font_color l))]),
          (''legend'', Obj [(''orientation'', Str ''h''), (''y'', Num (11 / 10))]),
          (''margin'', Obj [(''l'', Num 70), (''r'', Num 40), (''t'', Num 50), (''b'', Num 50)]),
          (''hovermode'', Str ''closest'')]"

definition config_object :: js where
  "config_object =
     Obj [(''responsive'', Bool True),
          (''displayModeBar'', Bool True),
          (''displaylogo'', Bool False),
          (''modeBarButtonsToRemove'', Arr [Str ''lasso2d'', Str ''select2d''])]"

text \<open>
  The arguments \<open>data\<close>, \<open>layout\<close> and \<open>config\<close> of \<open>Plotly.newPlot(container, data, layout,
  config)\<close>, as an array.
\<close>

definition newPlot_arguments :: "plot \<Rightarrow> js" where
  "newPlot_arguments p =
     Arr [Arr (map trace_object (plot_data p)), layout_object (plot_layout p), config_object]"

text \<open>
  Every key with its value, of a value and of everything nested in it. A value is
  flagged \<open>k: true\<close> when some object in it has the key \<open>k\<close> with the value \<open>true\<close>.
\<close>

primrec all_fields :: "js \<Rightarrow> (string \<times> js) list" where
  "all_fields (Num x) = []"
| "all_fields (Str x) = []"
| "all_fields (Bool b) = []"
| "all_fields (Arr vs) = concat (map all_fields vs)"
| "all_fields (Obj kvs) = kvs @ concat (map snd (map (map_prod id all_fields) kvs))"

definition flagged :: "string \<Rightarrow> js \<Rightarrow> bool" where
  "flagged k v = ((k, Bool True) \<in> set (all_fields v))"

section \<open>The page driven by \<open>dashboard.js\<close>\<close>

subsection \<open>What the page holds\<close>

text \<open>
  The text of an element. The script writes numbers through \<open>toFixed(2)\<close> and dates through
  \<open>toLocaleTimeString\<close>; the digits produced are not modelled, a text records which
  formatting of which value it is:
  \<^item> \<open>Literal\<close>: text that stands in the template;
  \<^item> \<open>Fixed2 v\<close>: \<open>v.toFixed(2)\<close>;
  \<^item> \<open>Signed_percent v\<close>: \<open>v.toFixed(2)\<close> with a leading \<open>+\<close> when it is above 0 and a
    trailing \<open>%\<close>;
  \<^item> \<open>Signed_fixed2 v\<close>: \<open>v.toFixed(2)\<close> with a leading \<open>+\<close> when \<open>v > 0\<close>;
  \<^item> \<open>Last_updated t\<close>: the \<open>Last updated: ...\<close> line for the date parsed from \<open>t\<close>.
\<close>

datatype inner_text =
    Literal string
  | Fixed2 real
  | Signed_percent real
  | Signed_fixed2 real
  | Last_updated string

text \<open>
  The \<open>timestamp\<close> field of the market JSON: a string that \<open>new Date\<close> either parses to a
  date or turns into \<open>Invalid Date\<close>.
\<close>

datatype iso_time = Valid_time string | Invalid_time string

record market_data =
  spot_price :: real
  price_change :: real
  price_change_pct :: real
  timestamp :: iso_time

text \<open>
  How a \<open>fetch\<close> settles: the promise rejects (no response), or resolves with a status and
  a body; \<open>None\<close> is a body that \<open>response.json()\<close> cannot decode.
\<close>

datatype 'a response = Network_failure | Http nat "'a option"

definition response_ok :: "nat \<Rightarrow> bool" where
  "response_ok status = (200 \<le> status \<and> status \<le> 299)"


text \<open>
  The two fetches of the script. A gamma request carries \<open>selectedExpiry\<close>, which is both
  in the URL and captured by the handlers of the promise.
\<close>

datatype request = Market_metrics | Gamma_exposure string

definition url_of :: "request \<Rightarrow> string" where
  "url_of r = (case r of
       Market_metrics \<Rightarrow> ''/api/market-metrics/''
     | Gamma_exposure expiry \<Rightarrow> ''/api/gamma-exposure/?expiry_filter='' @ expiry)"

text \<open>The content of \<open>#gamma-exposure-chart\<close> and of \<open>#tradingview-container\<close>.\<close>

datatype chart_card = Template_html | Loading_data | Error_loading | Chart plot

datatype widget = No_widget | Tv_widget string string

datatype icon = Fa_sun | Fa_moon

record change_el =
  ce_text :: inner_text
  ce_classes :: "string set"

text \<open>
  The state of the page. An element that the script looks up and tests for \<open>null\<close> is
  optional (\<open>None\<close>: not in the document); \<open>#theme-toggle\<close> is used without a test and is
  always there. \<open>requests\<close> lists every fetch issued so far, in order, each with a flag that
  is \<open>True\<close> while the fetch is in flight; a fetch is named by its position in the list.
  \<open>math_random\<close> is the sequence of the placeholder values that will be computed next.
\<close>

record dashboard =
  body_class :: "string set"
  stored_theme :: "string option"
  theme_toggle :: icon
  tradingview_container :: "widget option"
  gamma_exposure_chart :: "chart_card option"
  expiry_select :: "string option"
  spot_value :: "inner_text option"
  change_value :: "change_el option"
  change_absolute :: "inner_text option"
  spot_timestamp :: "inner_text option"
  console :: "string list"
  requests :: "(request \<times> bool) list"
  math_random :: "nat \<Rightarrow> real"

definition isDarkMode :: "dashboard \<Rightarrow> bool" where
  "isDarkMode s = (''dark-mode'' \<in> body_class s)"

definition fetched :: "dashboard \<Rightarrow> string list" where
  "fetched s = map (\<lambda>(r, p). url_of r) (requests s)"

definition in_flight :: "dashboard \<Rightarrow> request list" where
  "in_flight s = map fst (filter snd (requests s))"

subsection \<open>The functions of the script\<close>

definition classList_replace :: "string \<Rightarrow> string \<Rightarrow> string set \<Rightarrow> string set" where
  "classList_replace old new cl = (if old \<in> cl then insert new (cl - {old}) else cl)"

definition fetch :: "request \<Rightarrow> dashboard \<Rightarrow> dashboard" where
  "fetch r s = s\<lparr>requests := requests s @ [(r, True)]\<rparr>"

definition updateThemeToggleIcon :: "dashboard \<Rightarrow> dashboard" where
  "updateThemeToggleIcon s = s\<lparr>theme_toggle := (if isDarkMode s then Fa_sun else Fa_moon)\<rparr>"

definition initTradingViewWidget :: "dashboard \<Rightarrow> dashboard" where
  "initTradingViewWidget s =
     (case tradingview_container s of
        None \<Rightarrow> s
      | Some _ \<Rightarrow>
          s\<lparr>tradingview_container :=
               Some (Tv_widget (if isDarkMode s then ''dark'' else ''light'')
                               (if isDarkMode s then ''#242937'' else ''#f0f5f1''))\<rparr>)"

text \<open>\<open>expirySelect ? expirySelect.value : "All"\<close>\<close>

definition selectedExpiry :: "dashboard \<Rightarrow> string" where
  "selectedExpiry s = (case expiry_select s of Some v \<Rightarrow> v | None \<Rightarrow> ''All'')"

definition initGammaExposureChart :: "dashboard \<Rightarrow> dashboard" where
  "initGammaExposureChart s =
     (case gamma_exposure_chart s of
        None \<Rightarrow> s
      | Some _ \<Rightarrow>
          fetch (Gamma_exposure (selectedExpiry s))
            (s\<lparr>gamma_exposure_chart := Some Loading_data\<rparr>))"

definition loadMarketData :: "dashboard \<Rightarrow> dashboard" where
  "loadMarketData s = fetch Market_metrics s"

definition refreshData :: "dashboard \<Rightarrow> dashboard" where
  "refreshData s = initGammaExposureChart (loadMarketData s)"

definition updateGammaExposureChart :: "dashboard \<Rightarrow> dashboard" where
  "updateGammaExposureChart s = initGammaExposureChart s"

definition toggleTheme :: "dashboard \<Rightarrow> dashboard" where
  "toggleTheme s =
     (let s1 = (if ''dark-mode'' \<in> body_class s
                then s\<lparr>body_class := classList_replace ''dark-mode'' ''light-mode'' (body_class s),
                       stored_theme := Some ''light''\<rparr>
                else s\<lparr>body_class := classList_replace ''light-mode'' ''dark-mode'' (body_class s),
                       stored_theme := Some ''dark''\<rparr>)
      in initGammaExposureChart (initTradingViewWidget (updateThemeToggleIcon s1)))"

text \<open>
  \<open>updateMarketDisplay\<close> can throw half way: with an invalid date the match of the time
  zone is \<open>null\<close> and indexing it is a \<open>TypeError\<close>, after the three elements before were
  written. Both outcomes carry the page.
\<close>

datatype 's outcome = Returned 's | Threw 's

definition updateMarketDisplay :: "market_data \<Rightarrow> dashboard \<Rightarrow> dashboard outcome" where
  "updateMarketDisplay d s =
     (let s1 = s\<lparr>spot_value := map_option (\<lambda>_. Fixed2 (spot_price d)) (spot_value s)\<rparr>;
          s2 = s1\<lparr>change_value :=
                    map_option
                      (\<lambda>el. \<lparr>ce_text = Signed_percent (price_change_pct d),
                             ce_classes =
                               (if price_change d \<ge> 0
                                then insert ''positive'' (ce_classes el - {''negative''})
                                else insert ''negative'' (ce_classes el - {''positive''}))\<rparr>)
                      (change_value s1)\<rparr>;
          s3 = s2\<lparr>change_absolute :=
                    map_option (\<lambda>_. Signed_fixed2 (price_change d)) (change_absolute s2)\<rparr>
      in case spot_timestamp s3 of
           None \<Rightarrow> Returned s3
         | Some _ \<Rightarrow>
             (case timestamp d of
                Valid_time t \<Rightarrow> Returned (s3\<lparr>spot_timestamp := Some (Last_updated t)\<rparr>)
              | Invalid_time _ \<Rightarrow> Threw s3))"

text \<open>The \<open>.catch\<close> of each promise chain: it logs, and for the chart shows the message.\<close>

definition market_catch :: "dashboard \<Rightarrow> dashboard" where
  "market_catch s = s\<lparr>console := console s @ [''Error fetching market data:'']\<rparr>"

definition gamma_catch :: "dashboard \<Rightarrow> dashboard" where
  "gamma_catch s =
     s\<lparr>console := console s @ [''Error fetching gamma exposure data:''],
       gamma_exposure_chart := Some Error_loading\<rparr>"

text \<open>
  The promise chain of \<open>loadMarketData\<close>, run when its fetch settles: a rejected fetch, a
  status that is not ok, a body that does not decode and a throw of \<open>updateMarketDisplay\<close>
  all end in the \<open>.catch\<close>.
\<close>

definition market_settled :: "market_data response \<Rightarrow> dashboard \<Rightarrow> dashboard" where
  "market_settled r s =
     (case r of
        Network_failure \<Rightarrow> market_catch s
      | Http status body \<Rightarrow>
          if \<not> response_ok status then market_catch s
          else (case body of
                  None \<Rightarrow> market_catch s
                | Some d \<Rightarrow>
                    (case updateMarketDisplay d s of
                       Returned s' \<Rightarrow> s'
                     | Threw s' \<Rightarrow> market_catch s')))"

text \<open>
  The promise chain of \<open>initGammaExposureChart\<close>. The handlers hold the container found when
  the fetch was issued and the \<open>selectedExpiry\<close> of that moment (\<open>expiry\<close> here); the plot reads the theme
  when it is drawn. A plot of placeholder data uses up ten placeholder values.
\<close>

definition gamma_settled ::
  "string \<Rightarrow> exposure_record list response \<Rightarrow> dashboard \<Rightarrow> dashboard" where
  "gamma_settled expiry r s =
     (case r of
        Network_failure \<Rightarrow> gamma_catch s
      | Http status body \<Rightarrow>
          if \<not> response_ok status then gamma_catch s
          else (case body of
                  None \<Rightarrow> gamma_catch s
                | Some d \<Rightarrow>
                    s\<lparr>gamma_exposure_chart :=
                         Some (Chart (createGammaExposurePlot (isDarkMode s) (math_random s)
                                        d expiry)),
                      math_random :=
                         (if length d > 0 then math_random s
                          else (\<lambda>i. math_random s (i + 2 * length sample_strikes)))\<rparr>))"

subsection \<open>The events of the page\<close>

text \<open>
  The script runs one handler at a time. The events are: the \<open>setInterval\<close> timer
  (\<open>refreshData\<close>), a click on the theme button, a change of either select, and the
  settling of a fetch that is in flight.
\<close>

datatype event =
    Interval_elapsed
  | Theme_toggle_click
  | Expiry_select_change string
  | Customer_select_change
  | Market_metrics_settled nat "market_data response"
  | Gamma_exposure_settled nat "exposure_record list response"

fun step :: "dashboard \<Rightarrow> event \<Rightarrow> dashboard" where
  "step s Interval_elapsed = refreshData s"
| "step s Theme_toggle_click = toggleTheme s"
| "step s (Expiry_select_change v) =
     (case expiry_select s of
        None \<Rightarrow> s
      | Some _ \<Rightarrow> updateGammaExposureChart (s\<lparr>expiry_select := Some v\<rparr>))"
| "step s Customer_select_change = updateGammaExposureChart s"
| "step s (Market_metrics_settled i r) =
     (if i < length (requests s) \<and> requests s ! i = (Market_metrics, True)
      then market_settled r (s\<lparr>requests := (requests s)[i := (Market_metrics, False)]\<rparr>)
      else s)"
| "step s (Gamma_exposure_settled i r) =
     (if i < length (requests s)
      then (case requests s ! i of
              (Gamma_exposure e, True) \<Rightarrow>
                gamma_settled e r (s\<lparr>requests := (requests s)[i := (Gamma_exposure e, False)]\<rparr>)
            | _ \<Rightarrow> s)
      else s)"

definition run :: "dashboard \<Rightarrow> event list \<Rightarrow> dashboard" where
  "run s evs = foldl step s evs"

text \<open>
  \<open>body.className = v\<close> gives the body the classes that are the tokens of \<open>v\<close>, split at
  ASCII whitespace.
\<close>

definition is_space :: "char \<Rightarrow> bool" where
  "is_space c = (c \<in> {CHR '' '', CHR 0x09, CHR 0x0A, CHR 0x0C, CHR 0x0D})"

fun split_tokens :: "string \<Rightarrow> string \<Rightarrow> string list" where
  "split_tokens cur [] = (if cur = [] then [] else [cur])"
| "split_tokens cur (c # cs) =
     (if is_space c then (if cur = [] then [] else [cur]) @ split_tokens [] cs
      else split_tokens (cur @ [c]) cs)"

definition className_tokens :: "string \<Rightarrow> string set" where
  "className_tokens v = set (split_tokens [] v)"

text \<open>
  The listener of \<open>DOMContentLoaded\<close>: the theme of the last session or \<open>dark\<close>, the icon,
  the two charts; then the timer and the listeners (they are the events above), where
  \<open>getElementById("expiry-select").addEventListener\<close> throws when the select is not in the
  document, before the market data is loaded; then the market data. (\<open>#theme-toggle\<close> and
  \<open>#customer-select\<close> are always there; the notes editor is not modelled.)
\<close>

definition DOMContentLoaded :: "dashboard \<Rightarrow> dashboard outcome" where
  "DOMContentLoaded s =
     (let currentTheme = (case stored_theme s of
                            None \<Rightarrow> ''dark''
                          | Some t \<Rightarrow> if t = [] then ''dark'' else t);
          s1 = s\<lparr>body_class := className_tokens (currentTheme @ ''-mode'')\<rparr>;
          s2 = initGammaExposureChart (initTradingViewWidget (updateThemeToggleIcon s1))
      in case expiry_select s2 of
           None \<Rightarrow> Threw s2
         | Some _ \<Rightarrow> Returned (loadMarketData s2))"

text \<open>The page that an outcome carries.\<close>

fun page_of :: "'s outcome \<Rightarrow> 's" where
  "page_of (Returned s) = s"
| "page_of (Threw s) = s"

text \<open>The document of \<open>index.html\<close> before any script has run.\<close>

definition index_html :: "string option \<Rightarrow> (nat \<Rightarrow> real) \<Rightarrow> dashboard" where
  "index_html theme rnd =
     \<lparr>body_class = {''dark-mode''},
      stored_theme = theme,
      theme_toggle = Fa_sun,
      tradingview_container = Some No_widget,
      gamma_exposure_chart = Some Template_html,
      expiry_select = Some ''all'',
      spot_value = Some (Literal ''5667.00''),
      change_value = Some \<lparr>ce_text = Literal ''+0.02%'', ce_classes = {''change-value'', ''positive''}\<rparr>,
      change_absolute = Some (Literal ''+1.00''),
      spot_timestamp = Some (Literal ''Last updated: 08:47:42 (UTC-4)''),
      console = [],
      requests = [],
      math_random = rnd\<rparr>"

section \<open>The second dashboard script (jQuery)\<close>

text \<open>
  The other variant of the script keeps its state in three globals and gates every load
  on \<open>pauseUpdates\<close>. Its own \<open>refreshData\<close> is \<open>refreshData_jq\<close> here.
\<close>

record jq_metrics =
  jq_spot_price :: real
  jq_price_change_pct :: real

record jq_item =
  item_strike_price :: real
  item_total_gamma :: real

datatype ajax = Ajax_market_metrics | Ajax_gamma_exposure string

record jq_plot =
  jp_y :: "real list"
  jp_x :: "real list"
  jp_colors :: "string list"
  jp_text :: "inner_text list"
  jp_bgcolor :: string
  jp_font_color :: string

text \<open>
  \<open>metric_1_value\<close> is the pair of numbers shown in \<open>#metric-1-value\<close> (spot price and
  percentage), \<open>gammaPlot\<close> the chart last drawn, \<open>ajax_calls\<close> every \<open>$.ajax\<close> call issued
  with its in-flight flag.
\<close>

record jq_dashboard =
  pauseUpdates :: bool
  currentExpiryFilter :: string
  darkMode :: bool
  metric_1_value :: "(real \<times> real) option"
  gammaPlot :: "jq_plot option"
  jq_console :: "string list"
  ajax_calls :: "(ajax \<times> bool) list"

definition ajax_call :: "ajax \<Rightarrow> jq_dashboard \<Rightarrow> jq_dashboard" where
  "ajax_call r s = s\<lparr>ajax_calls := ajax_calls s @ [(r, True)]\<rparr>"

definition loadMarketMetrics :: "jq_dashboard \<Rightarrow> jq_dashboard" where
  "loadMarketMetrics s = (if pauseUpdates s then s else ajax_call Ajax_market_metrics s)"

definition loadGammaExposureData :: "jq_dashboard \<Rightarrow> jq_dashboard" where
  "loadGammaExposureData s =
     (if pauseUpdates s then s else ajax_call (Ajax_gamma_exposure (currentExpiryFilter s)) s)"

definition refreshData_jq :: "jq_dashboard \<Rightarrow> jq_dashboard" where
  "refreshData_jq s =
     (if \<not> pauseUpdates s then loadGammaExposureData (loadMarketMetrics s) else s)"

definition refreshCharts :: "jq_dashboard \<Rightarrow> jq_dashboard" where
  "refreshCharts s = loadGammaExposureData s"

definition updateMetricsDisplay :: "jq_metrics \<Rightarrow> jq_dashboard \<Rightarrow> jq_dashboard" where
  "updateMetricsDisplay d s =
     s\<lparr>metric_1_value := Some (jq_spot_price d, jq_price_change_pct d)\<rparr>"

definition drawGammaExposureChart :: "jq_item list \<Rightarrow> jq_dashboard \<Rightarrow> jq_dashboard" where
  "drawGammaExposureChart d s =
     (let strikes = map item_strike_price d;
          gammaValues = map item_total_gamma d;
          colors = map (\<lambda>val. if val \<ge> 0 then ''rgba(0, 255, 0, 0.7)''
                              else ''rgba(255, 0, 0, 0.7)'') gammaValues
      in s\<lparr>gammaPlot :=
             Some \<lparr>jp_y = strikes, jp_x = gammaValues, jp_colors = colors,
                   jp_text = map Fixed2 gammaValues,
                   jp_bgcolor = (if darkMode s then ''rgb(29, 32, 33)'' else ''white''),
                   jp_font_color = (if darkMode s then ''white'' else ''black'')\<rparr>\<rparr>)"

text \<open>
  The triggers of this variant: the timer, the pause checkbox, the expiry dropdown, and
  the completion of a call (\<open>None\<close>: the \<open>error\<close> callback, which only logs). The click
  on the dark-mode button is left out: it calls \<open>updateTradingViewTheme\<close>, which is not
  among the sources; its data load is \<open>refreshCharts\<close>.
\<close>

datatype jq_event =
    Jq_interval_elapsed
  | Pause_change bool
  | Expiry_filter_change string
  | Metrics_complete nat "jq_metrics option"
  | Gamma_complete nat "jq_item list option"

fun jq_step :: "jq_dashboard \<Rightarrow> jq_event \<Rightarrow> jq_dashboard" where
  "jq_step s Jq_interval_elapsed = refreshData_jq s"
| "jq_step s (Pause_change checked) = s\<lparr>pauseUpdates := checked\<rparr>"
| "jq_step s (Expiry_filter_change v) = loadGammaExposureData (s\<lparr>currentExpiryFilter := v\<rparr>)"
| "jq_step s (Metrics_complete i r) =
     (if i < length (ajax_calls s) \<and> ajax_calls s ! i = (Ajax_market_metrics, True)
      then (let s' = s\<lparr>ajax_calls := (ajax_calls s)[i := (Ajax_market_metrics, False)]\<rparr>
            in case r of
                 Some d \<Rightarrow> updateMetricsDisplay d s'
               | None \<Rightarrow> s'\<lparr>jq_console := jq_console s' @ [''Error fetching market metrics:'']\<rparr>)
      else s)"
| "jq_step s (Gamma_complete i r) =
     (if i < length (ajax_calls s)
      then (case ajax_calls s ! i of
              (Ajax_gamma_exposure e, True) \<Rightarrow>
                (let s' = s\<lparr>ajax_calls := (ajax_calls s)[i := (Ajax_gamma_exposure e, False)]\<rparr>
                 in case r of
                      Some d \<Rightarrow> drawGammaExposureChart d s'
                    | None \<Rightarrow>
                        s'\<lparr>jq_console := jq_console s' @ [''Error fetching gamma exposure data:'']\<rparr>)
            | _ \<Rightarrow> s)
      else s)"

section \<open>Properties of the chart\<close>

lemma plot_data_nonempty:
  "exposureData \<noteq> [] \<Longrightarrow>
   plot_data (createGammaExposurePlot dark rnd exposureData expiry) = real_traces exposureData"
  by (simp add: createGammaExposurePlot_def)

lemma strikes_real:
  "exposureData \<noteq> [] \<Longrightarrow>
   strikes (createGammaExposurePlot dark rnd exposureData expiry)
     = map strike_price (filteredData exposureData)"
  by (simp add: plot_data_nonempty strikes_def real_traces_def bar_trace_def Let_def)

lemma calls_real:
  "exposureData \<noteq> [] \<Longrightarrow>
   calls (createGammaExposurePlot dark rnd exposureData expiry)
     = map call_value (filteredData exposureData)"
  by (simp add: plot_data_nonempty calls_def real_traces_def bar_trace_def Let_def)

lemma puts_real:
  "exposureData \<noteq> [] \<Longrightarrow>
   puts (createGammaExposurePlot dark rnd exposureData expiry)
     = map put_value (filteredData exposureData)"
  by (simp add: plot_data_nonempty puts_def real_traces_def bar_trace_def Let_def)

lemma net_real:
  "exposureData \<noteq> [] \<Longrightarrow>
   net (createGammaExposurePlot dark rnd exposureData expiry)
     = map net_value (filteredData exposureData)"
  by (simp add: plot_data_nonempty net_def real_traces_def bar_trace_def line_trace_def Let_def)

subsection \<open>Every \<open>step\<close>-th index\<close>

lemma mult_less_iff_ceil:
  fixes s n k :: nat
  assumes "0 < s"
  shows "(k * s < n) = (k < (n + s - 1) div s)"
proof -
  have "(Suc k \<le> (n + s - 1) div s) = (Suc k * s \<le> n + s - 1)"
    using assms by (simp add: less_eq_div_iff_mult_less_eq)
  also have "\<dots> = (k * s < n)"
    using assms by (cases n) auto
  finally show ?thesis by auto
qed

lemma multiples_upt:
  fixes s n :: nat
  assumes "0 < s"
  shows "filter (\<lambda>i. i mod s = 0) [0..<n] = map (\<lambda>k. k * s) [0..<(n + s - 1) div s]"
proof (rule sorted_distinct_set_unique)
  show "sorted (filter (\<lambda>i. i mod s = 0) [0..<n])" by (rule sorted_wrt_filter) simp
  show "distinct (filter (\<lambda>i. i mod s = 0) [0..<n])" by simp
  show "sorted (map (\<lambda>k. k * s) [0..<(n + s - 1) div s])"
    by (rule sorted_wrt_map_mono[where f="\<lambda>k. k * s"]) (auto simp: assms)
  show "distinct (map (\<lambda>k. k * s) [0..<(n + s - 1) div s])"
    using assms by (simp add: distinct_map inj_on_def)
  show "set (filter (\<lambda>i. i mod s = 0) [0..<n]) = set (map (\<lambda>k. k * s) [0..<(n + s - 1) div s])"
  proof (intro set_eqI iffI)
    fix i assume "i \<in> set (filter (\<lambda>i. i mod s = 0) [0..<n])"
    then have i: "i < n" "i mod s = 0" by auto
    then have "i = (i div s) * s" using div_mult_mod_eq[of i s] by simp
    then obtain k where k: "i = k * s" ..
    with i assms have "k < (n + s - 1) div s" by (simp add: mult_less_iff_ceil)
    with k show "i \<in> set (map (\<lambda>k. k * s) [0..<(n + s - 1) div s])" by auto
  next
    fix i assume "i \<in> set (map (\<lambda>k. k * s) [0..<(n + s - 1) div s])"
    then obtain k where k: "i = k * s" "k < (n + s - 1) div s" by (auto simp del: One_nat_def) blast
    with assms have "i < n" by (simp add: mult_less_iff_ceil)
    with k show "i \<in> set (filter (\<lambda>i. i mod s = 0) [0..<n])" by simp
  qed
qed

lemma array_filter_index:
  "array_filter (\<lambda>item index arr. P index arr) xs
     = map ((!) xs) (filter (\<lambda>i. P i xs) [0..<length xs])"
proof -
  have "zip xs [0..<length xs] = map (\<lambda>i. (xs ! i, i)) [0..<length xs]"
    by (rule nth_equalityI) auto
  then show ?thesis
    by (simp add: array_filter_def filter_map comp_def)
qed

lemma array_filter_nths:
  "array_filter (\<lambda>item index arr. P index arr) xs = nths xs {i. P i xs}"
  by (simp add: array_filter_def nths_def case_prod_unfold)

lemma sorted_hd_Min: "sorted ys \<Longrightarrow> ys \<noteq> [] \<Longrightarrow> hd ys = Min (set ys)" for ys :: "'a::linorder list"
  by (cases ys) (auto intro!: Min_eqI[symmetric])

subsection \<open>The downsampled records\<close>

lemma step_of_pos: "0 < step_of n"
  by (simp add: step_of_def)

lemma filteredData_nths:
  "filteredData recs = nths (sortedData recs) {i. i mod step_of (length recs) = 0}"
  using array_filter_nths[of "\<lambda>index arr. index mod step_of (length arr) = 0" "sortedData recs"]
  by (simp add: filteredData_def keep_item_def[abs_def] sortedData_def)

lemma filteredData_index:
  "filteredData recs =
     map (\<lambda>k. sortedData recs ! (k * step_of (length recs)))
       [0..<(length recs + step_of (length recs) - 1) div step_of (length recs)]"
proof -
  have "filteredData recs =
      map ((!) (sortedData recs)) (filter (\<lambda>i. i mod step_of (length recs) = 0) [0..<length recs])"
    using array_filter_index[of "\<lambda>index arr. index mod step_of (length arr) = 0" "sortedData recs"]
    by (simp add: filteredData_def keep_item_def[abs_def] sortedData_def)
  then show ?thesis
    by (simp add: multiples_upt[OF step_of_pos] comp_def)
qed

lemma length_filteredData:
  "length (filteredData recs) = (length recs + step_of (length recs) - 1) div step_of (length recs)"
  by (simp add: filteredData_index)

lemma ceil_le_floor_Suc: "0 < s \<Longrightarrow> (n + s - 1) div s \<le> n div s + 1" for n s :: nat
proof -
  assume s: "0 < s"
  have "(n + s - 1) div s \<le> (n + s) div s" by (rule div_le_mono) simp
  also have "\<dots> = n div s + 1" using s by simp
  finally show ?thesis .
qed

lemma sorted_strikes_filteredData: "sorted (map strike_price (filteredData recs))"
proof -
  have "sorted (map strike_price (sortedData recs))"
    by (simp add: sortedData_def)
  then have "sorted (nths (map strike_price (sortedData recs)) {i. i mod step_of (length recs) = 0})"
    by (rule sorted_nths)
  then show ?thesis by (simp add: filteredData_nths nths_map)
qed

lemma filteredData_nonempty: "recs \<noteq> [] \<Longrightarrow> filteredData recs \<noteq> []"
proof -
  assume "recs \<noteq> []"
  then have "0 * step_of (length recs) < length recs" by simp
  then have "0 < (length recs + step_of (length recs) - 1) div step_of (length recs)"
    by (simp only: mult_less_iff_ceil[OF step_of_pos])
  then show ?thesis using length_filteredData[of recs] by auto
qed

lemma hd_filteredData: "recs \<noteq> [] \<Longrightarrow> hd (filteredData recs) = hd (sortedData recs)"
proof -
  assume ne: "recs \<noteq> []"
  let ?c = "(length recs + step_of (length recs) - 1) div step_of (length recs)"
  have "0 < length (filteredData recs)" using filteredData_nonempty[OF ne] by simp
  then have c: "0 < ?c" by (simp only: length_filteredData)
  then have "[0..<?c] = 0 # [1..<?c]" by (simp add: upt_conv_Cons)
  then have "hd (filteredData recs) = sortedData recs ! 0"
    by (subst filteredData_index) simp
  moreover have "sortedData recs \<noteq> []"
    using ne by (metis length_sort sortedData_def length_0_conv)
  ultimately show ?thesis by (simp add: hd_conv_nth)
qed

lemma min_strike_first:
  assumes "recs \<noteq> []"
  shows "hd (map strike_price (filteredData recs)) = Min (strike_price ` set recs)"
proof -
  have ne: "sortedData recs \<noteq> []"
    using assms by (metis length_sort sortedData_def length_0_conv)
  have "hd (map strike_price (filteredData recs)) = strike_price (hd (filteredData recs))"
    using filteredData_nonempty[OF assms] by (simp add: hd_map)
  also have "\<dots> = hd (map strike_price (sortedData recs))"
    using ne by (simp add: hd_filteredData[OF assms] hd_map)
  also have "\<dots> = Min (set (map strike_price (sortedData recs)))"
    using ne by (intro sorted_hd_Min) (simp_all add: sortedData_def)
  also have "\<dots> = Min (strike_price ` set recs)"
    by (simp add: sortedData_def)
  finally show ?thesis .
qed

lemma insort_key_map_same:
  "(\<And>x. f (g x) = f x) \<Longrightarrow> insort_key f (g x) (map g xs) = map g (insort_key f x xs)"
  by (induction xs) auto

lemma sort_key_map_same:
  "(\<And>x. f (g x) = f x) \<Longrightarrow> sort_key f (map g xs) = map g (sort_key f xs)"
  by (induction xs) (simp_all add: insort_key_map_same)

lemma filteredData_map_same:
  assumes "\<And>r. strike_price (g r) = strike_price r"
  shows "filteredData (map g recs) = map g (filteredData recs)"
proof -
  have "sortedData (map g recs) = map g (sortedData recs)"
    unfolding sortedData_def using assms by (rule sort_key_map_same)
  then show ?thesis
    by (simp add: filteredData_nths nths_map)
qed

lemma put_value_nonpos: "put_value item \<le> 0"
  by (simp add: put_value_def)

lemma put_value_idem:
  "put_value (item\<lparr>put_gamma_exposure := Some (put_value item)\<rparr>) = put_value item"
  by (simp add: put_value_def or_zero_def)

subsection \<open>The worked example\<close>

lemma filteredData_example:
  "filteredData
     [\<lparr>strike_price = 100, call_gamma_exposure = Some 5,
       put_gamma_exposure = Some 3, total_gamma_exposure = Some 2\<rparr>,
      \<lparr>strike_price = 90, call_gamma_exposure = Some 1,
       put_gamma_exposure = Some 9, total_gamma_exposure = Some (- 8)\<rparr>]
   = [\<lparr>strike_price = 90, call_gamma_exposure = Some 1,
       put_gamma_exposure = Some 9, total_gamma_exposure = Some (- 8)\<rparr>,
      \<lparr>strike_price = 100, call_gamma_exposure = Some 5,
       put_gamma_exposure = Some 3, total_gamma_exposure = Some 2\<rparr>]"
  by (simp add: filteredData_def sortedData_def array_filter_def keep_item_def step_of_def upt_rec)

text \<open>
  Claim C3. On the two records with strikes 100 and 90 of the specification's example,
  whatever the expiry label (and the theme and the random source), the plot has strikes
  \<open>[90, 100]\<close>, calls \<open>[1, 5]\<close>, puts \<open>[-9, -3]\<close> and net values \<open>[-8, 2]\<close>; the step is
  \<open>max 1 (2 div 20) = 1\<close>.
\<close>

theorem example_series:
  "let p = createGammaExposurePlot dark rnd
             [\<lparr>strike_price = 100, call_gamma_exposure = Some 5,
               put_gamma_exposure = Some 3, total_gamma_exposure = Some 2\<rparr>,
              \<lparr>strike_price = 90, call_gamma_exposure = Some 1,
               put_gamma_exposure = Some 9, total_gamma_exposure = Some (- 8)\<rparr>] expiry
   in strikes p = [90, 100] \<and> calls p = [1, 5] \<and> puts p = [- 9, - 3] \<and> net p = [- 8, 2]
    \<and> step_of 2 = 1"
  by (simp add: strikes_real calls_real puts_real net_real filteredData_example
      call_value_def put_value_def net_value_def or_zero_def step_of_def)

subsection \<open>Downsampling\<close>

text \<open>
  Claim C4. For more than 20 records, with \<open>N\<close> their number and
  \<open>step = max 1 (N div 20)\<close>: the plot has at most \<open>N div step + 1\<close> strikes; the sorted
  copy is a permutation of the input in ascending order of strike; the records kept are
  exactly those of the sorted copy at the indices that are 0 modulo \<open>step\<close>, on every
  channel; and the strikes of the plot are in non-decreasing order.
\<close>

theorem downsample_bound_and_order:
  assumes "20 < length recs"
  shows "let N = length recs;
             step = max 1 (N div 20);
             out = createGammaExposurePlot dark rnd recs expiry;
             kept = nths (sortedData recs) {i. i mod step = 0}
         in length (strikes out) \<le> N div step + 1
          \<and> mset (sortedData recs) = mset recs
          \<and> sorted (map strike_price (sortedData recs))
          \<and> strikes out = map strike_price kept
          \<and> calls out = map call_value kept
          \<and> puts out = map put_value kept
          \<and> net out = map net_value kept
          \<and> sorted (strikes out)"
proof -
  from assms have ne: "recs \<noteq> []" by auto
  have len: "length (filteredData recs) \<le> length recs div step_of (length recs) + 1"
    by (simp only: length_filteredData ceil_le_floor_Suc[OF step_of_pos])
  show ?thesis
    using len sorted_strikes_filteredData[of recs]
    by (simp add: Let_def strikes_real[OF ne] calls_real[OF ne] puts_real[OF ne] net_real[OF ne]
        filteredData_nths sortedData_def step_of_def)
qed

theorem downsample_bound_and_order_witness:
  "20 < length (map (\<lambda>n. \<lparr>strike_price = 5000 - real n, call_gamma_exposure = Some 1,
                          put_gamma_exposure = Some 2, total_gamma_exposure = None\<rparr>) [0..<42])
   \<and> length (strikes (createGammaExposurePlot True (\<lambda>_. 0)
        (map (\<lambda>n. \<lparr>strike_price = 5000 - real n, call_gamma_exposure = Some 1,
                    put_gamma_exposure = Some 2, total_gamma_exposure = None\<rparr>) [0..<42])
        ''all'')) \<le> 22
   \<and> sorted (strikes (createGammaExposurePlot True (\<lambda>_. 0)
        (map (\<lambda>n. \<lparr>strike_price = 5000 - real n, call_gamma_exposure = Some 1,
                    put_gamma_exposure = Some 2, total_gamma_exposure = None\<rparr>) [0..<42])
        ''all''))"
  (is "20 < length ?W \<and> length (strikes ?out) \<le> 22 \<and> sorted (strikes ?out)")
proof -
  have h: "20 < length ?W" by simp
  have n: "length ?W = 42" by simp
  have s: "max (1::nat) (42 div 20) = 2" by simp
  note t = downsample_bound_and_order[OF h, of True "\<lambda>_. 0" "''all''", unfolded Let_def n s]
  from t have a: "length (strikes ?out) \<le> 42 div 2 + 1" by (rule conjunct1)
  from t have b: "sorted (strikes ?out)" by blast
  from a have "length (strikes ?out) \<le> 22" by simp
  with h b show ?thesis by blast
qed

subsection \<open>The put channel\<close>

text \<open>
  Claim C5. For every record, whatever the sign of its put exposure, the put value
  emitted is at most 0, so every value of the put channel of a plot of real data is at
  most 0. Forcing the sign is idempotent: a value of the put channel is unchanged by
  \<open>x \<mapsto> - |x or 0|\<close>, a record whose put exposure is replaced by its put value has the same
  put value, and the plot of the records so replaced has the same put channel.
\<close>

theorem put_channel_nonpositive_idempotent:
  assumes "recs \<noteq> []"
  shows "let out = createGammaExposurePlot dark rnd recs expiry;
             again = createGammaExposurePlot dark rnd
                       (map (\<lambda>item. item\<lparr>put_gamma_exposure := Some (put_value item)\<rparr>) recs) expiry
         in (\<forall>v \<in> set (puts out). v \<le> 0)
          \<and> (\<forall>item. put_value item \<le> 0
                   \<and> put_value (item\<lparr>put_gamma_exposure := Some (put_value item)\<rparr>) = put_value item)
          \<and> map (\<lambda>v. - \<bar>or_zero (Some v)\<bar>) (puts out) = puts out
          \<and> puts again = puts out"
proof -
  let ?g = "\<lambda>item. item\<lparr>put_gamma_exposure := Some (put_value item)\<rparr>"
  have ne: "map ?g recs \<noteq> []" using assms by simp
  have 1: "\<forall>v \<in> set (map put_value (filteredData recs)). v \<le> 0"
    by (auto simp: put_value_nonpos)
  have 2: "map (\<lambda>v. - \<bar>or_zero (Some v)\<bar>) (map put_value (filteredData recs))
             = map put_value (filteredData recs)"
    by (simp add: or_zero_def put_value_def)
  have "filteredData (map ?g recs) = map ?g (filteredData recs)"
    by (rule filteredData_map_same) simp
  then have 3: "map put_value (filteredData (map ?g recs)) = map put_value (filteredData recs)"
    by (simp add: put_value_idem)
  show ?thesis
    using 1 2 3
    by (simp only: Let_def puts_real[OF assms] puts_real[OF ne] put_value_nonpos put_value_idem)
       simp
qed

theorem put_channel_nonpositive_idempotent_witness:
  "[\<lparr>strike_price = 100, call_gamma_exposure = Some 5,
     put_gamma_exposure = Some (- 3), total_gamma_exposure = None\<rparr>,
    \<lparr>strike_price = 110, call_gamma_exposure = None,
     put_gamma_exposure = Some 7, total_gamma_exposure = Some 1\<rparr>] \<noteq> []
   \<and> puts (createGammaExposurePlot True (\<lambda>_. 0)
        [\<lparr>strike_price = 100, call_gamma_exposure = Some 5,
          put_gamma_exposure = Some (- 3), total_gamma_exposure = None\<rparr>,
         \<lparr>strike_price = 110, call_gamma_exposure = None,
          put_gamma_exposure = Some 7, total_gamma_exposure = Some 1\<rparr>] ''all'') = [- 3, - 7]"
  using put_channel_nonpositive_idempotent
    [of "[\<lparr>strike_price = 100, call_gamma_exposure = Some 5,
           put_gamma_exposure = Some (- 3), total_gamma_exposure = None\<rparr>,
          \<lparr>strike_price = 110, call_gamma_exposure = None,
           put_gamma_exposure = Some 7, total_gamma_exposure = Some 1\<rparr>]"
        True "\<lambda>_. 0" "''all''"]
  by (simp add: Let_def puts_real filteredData_index sortedData_def step_of_def put_value_def
      or_zero_def upt_rec)

subsection \<open>Placeholder data\<close>

lemma all_fields_nums: "all_fields (Arr (map Num xs)) = []"
  by (induction xs) simp_all

lemma trace_object_keys:
  "fst ` set (all_fields (trace_object t))
     \<subseteq> {''y'', ''x'', ''name'', ''type'', ''orientation'', ''mode'', ''line'', ''marker'',
        ''color'', ''width'', ''size'', ''hovertemplate''}"
proof -
  have a: "all_fields (Arr (map Num (tr_y t))) = []" "all_fields (Arr (map Num (tr_x t))) = []"
    by (rule all_fields_nums)+
  show ?thesis
    unfolding trace_object_def opt_key_def
    by (cases "orientation t"; cases "mode t"; cases "line_color t"; cases "line_width t";
        cases "marker_color t"; cases "marker_size t"; cases "hovertemplate t")
       (simp_all add: a del: all_fields.simps(4))
qed

lemma no_isSample_in_trace: "''isSample'' \<notin> fst ` set (all_fields (trace_object t))"
  using trace_object_keys[of t] by auto

lemma no_isSample_in_layout: "''isSample'' \<notin> fst ` set (all_fields (layout_object l))"
  by (simp add: layout_object_def)

lemma no_isSample_in_config: "''isSample'' \<notin> fst ` set (all_fields config_object)"
  by (simp add: config_object_def)

lemma no_isSample_key: "''isSample'' \<notin> fst ` set (all_fields (newPlot_arguments p))"
proof
  assume "''isSample'' \<in> fst ` set (all_fields (newPlot_arguments p))"
  then consider t where "t \<in> set (plot_data p)"
      "''isSample'' \<in> fst ` set (all_fields (trace_object t))"
    | "''isSample'' \<in> fst ` set (all_fields (layout_object (plot_layout p)))"
    | "''isSample'' \<in> fst ` set (all_fields config_object)"
    unfolding newPlot_arguments_def by (auto simp del: all_fields.simps(5))
  then show False
    using no_isSample_in_trace no_isSample_in_layout no_isSample_in_config by cases blast+
qed

lemma not_flagged_isSample: "\<not> flagged ''isSample'' (newPlot_arguments p)"
proof
  assume "flagged ''isSample'' (newPlot_arguments p)"
  then have "(''isSample'', Bool True) \<in> set (all_fields (newPlot_arguments p))"
    by (simp only: flagged_def)
  then have "fst (''isSample'', Bool True) \<in> fst ` set (all_fields (newPlot_arguments p))"
    by (rule imageI)
  then show False using no_isSample_key[of p] by simp
qed

text \<open>
  Claim C6, as stated: the series of an empty record sequence is flagged
  \<open>isSample: true\<close>. The script sets no such flag: of what it hands to \<open>Plotly.newPlot\<close> for
  an empty record sequence, no object, at any depth, has a key \<open>isSample\<close>.
\<close>

theorem isSample_flag_counterexample:
  "\<not> flagged ''isSample'' (newPlot_arguments (createGammaExposurePlot True (\<lambda>_. 0) [] ''all''))
   \<and> ''isSample''
       \<notin> fst ` set (all_fields (newPlot_arguments (createGammaExposurePlot True (\<lambda>_. 0) [] ''all'')))"
  using not_flagged_isSample no_isSample_key by blast

text \<open>
  Claim C6, amended: the plot of an empty record sequence is the placeholder, told apart
  by its trace names only: two traces, \<open>Calls (Sample)\<close> and \<open>Puts (Sample)\<close>, over the five
  strikes 5550, 5600, 5650, 5700, 5750, with five call values and five put values and no
  net line. The plot of a non-empty record sequence has the traces \<open>Calls (Long)\<close>,
  \<open>Puts (Short)\<close> and \<open>Net Gamma\<close>, never the sample names. For no input does an object
  handed to \<open>Plotly.newPlot\<close> carry an \<open>isSample\<close> key.
\<close>

theorem placeholder_told_by_trace_names:
  "trace_names (createGammaExposurePlot dark rnd [] expiry)
     = [''Calls (Sample)'', ''Puts (Sample)'']
   \<and> strikes (createGammaExposurePlot dark rnd [] expiry) = [5550, 5600, 5650, 5700, 5750]
   \<and> calls (createGammaExposurePlot dark rnd [] expiry) = [rnd 0, rnd 1, rnd 2, rnd 3, rnd 4]
   \<and> puts (createGammaExposurePlot dark rnd [] expiry) = [rnd 5, rnd 6, rnd 7, rnd 8, rnd 9]
   \<and> net (createGammaExposurePlot dark rnd [] expiry) = []
   \<and> (recs \<noteq> [] \<longrightarrow>
        trace_names (createGammaExposurePlot dark rnd recs expiry)
          = [''Calls (Long)'', ''Puts (Short)'', ''Net Gamma''])
   \<and> ''isSample''
        \<notin> fst ` set (all_fields (newPlot_arguments (createGammaExposurePlot dark rnd recs expiry)))
   \<and> \<not> flagged ''isSample'' (newPlot_arguments (createGammaExposurePlot dark rnd recs expiry))"
proof -
  have empty: "plot_data (createGammaExposurePlot dark rnd [] expiry) = sample_traces rnd"
    by (simp add: createGammaExposurePlot_def)
  have s: "sample_traces rnd =
      [bar_trace [5550, 5600, 5650, 5700, 5750] [rnd 0, rnd 1, rnd 2, rnd 3, rnd 4]
         ''Calls (Sample)'' ''#4caf50'' None,
       bar_trace [5550, 5600, 5650, 5700, 5750] [rnd 5, rnd 6, rnd 7, rnd 8, rnd 9]
         ''Puts (Sample)'' ''#f44336'' None]"
    by (simp add: sample_traces_def sample_strikes_def Let_def eval_nat_numeral)
  have e: "trace_names (createGammaExposurePlot dark rnd [] expiry)
             = [''Calls (Sample)'', ''Puts (Sample)'']"
    "strikes (createGammaExposurePlot dark rnd [] expiry) = [5550, 5600, 5650, 5700, 5750]"
    "calls (createGammaExposurePlot dark rnd [] expiry) = [rnd 0, rnd 1, rnd 2, rnd 3, rnd 4]"
    "puts (createGammaExposurePlot dark rnd [] expiry) = [rnd 5, rnd 6, rnd 7, rnd 8, rnd 9]"
    "net (createGammaExposurePlot dark rnd [] expiry) = []"
    by (simp_all add: trace_names_def strikes_def calls_def puts_def net_def empty s bar_trace_def)
  have n: "recs \<noteq> [] \<longrightarrow>
        trace_names (createGammaExposurePlot dark rnd recs expiry)
          = [''Calls (Long)'', ''Puts (Short)'', ''Net Gamma'']"
    by (simp add: trace_names_def plot_data_nonempty real_traces_def bar_trace_def
        line_trace_def Let_def)
  from e n no_isSample_key not_flagged_isSample show ?thesis by blast
qed

theorem placeholder_told_by_trace_names_witness:
  "[\<lparr>strike_price = 100, call_gamma_exposure = Some 0,
     put_gamma_exposure = Some 0, total_gamma_exposure = Some 0\<rparr>] \<noteq> []
   \<and> trace_names (createGammaExposurePlot True (\<lambda>_. 0)
        [\<lparr>strike_price = 100, call_gamma_exposure = Some 0,
          put_gamma_exposure = Some 0, total_gamma_exposure = Some 0\<rparr>] ''all'')
       = [''Calls (Long)'', ''Puts (Short)'', ''Net Gamma'']
   \<and> trace_names (createGammaExposurePlot True (\<lambda>_. 0) [] ''all'')
       = [''Calls (Sample)'', ''Puts (Sample)'']
   \<and> strikes (createGammaExposurePlot True (\<lambda>_. 0) [] ''all'') = [5550, 5600, 5650, 5700, 5750]"
  using placeholder_told_by_trace_names
    [of True "\<lambda>_. 0" "''all''"
        "[\<lparr>strike_price = 100, call_gamma_exposure = Some 0,
           put_gamma_exposure = Some 0, total_gamma_exposure = Some 0\<rparr>]"]
  by simp

subsection \<open>Determinism and the theme\<close>

text \<open>
  Claim C9. For a fixed non-empty record sequence and expiry label the plot does not
  depend on the random source, so two runs give the same plot; and the traces, hence the
  strikes, calls, puts and net values, are the same in dark and in light mode.
\<close>

theorem series_deterministic_theme_independent:
  assumes "recs \<noteq> []"
  shows "createGammaExposurePlot dark rnd recs expiry = createGammaExposurePlot dark rnd' recs expiry
       \<and> plot_data (createGammaExposurePlot True rnd recs expiry)
           = plot_data (createGammaExposurePlot False rnd' recs expiry)
       \<and> strikes (createGammaExposurePlot True rnd recs expiry)
           = strikes (createGammaExposurePlot False rnd' recs expiry)
       \<and> calls (createGammaExposurePlot True rnd recs expiry)
           = calls (createGammaExposurePlot False rnd' recs expiry)
       \<and> puts (createGammaExposurePlot True rnd recs expiry)
           = puts (createGammaExposurePlot False rnd' recs expiry)
       \<and> net (createGammaExposurePlot True rnd recs expiry)
           = net (createGammaExposurePlot False rnd' recs expiry)"
  using assms
  by (simp add: strikes_real calls_real puts_real net_real plot_data_nonempty)
     (simp add: createGammaExposurePlot_def)

theorem series_deterministic_theme_independent_witness:
  "[\<lparr>strike_price = 100, call_gamma_exposure = Some 5,
     put_gamma_exposure = Some 3, total_gamma_exposure = None\<rparr>] \<noteq> []
   \<and> createGammaExposurePlot True (\<lambda>_. 0)
        [\<lparr>strike_price = 100, call_gamma_exposure = Some 5,
          put_gamma_exposure = Some 3, total_gamma_exposure = None\<rparr>] ''all''
     = createGammaExposurePlot True (\<lambda>_. 1 / 2)
        [\<lparr>strike_price = 100, call_gamma_exposure = Some 5,
          put_gamma_exposure = Some 3, total_gamma_exposure = None\<rparr>] ''all''
   \<and> puts (createGammaExposurePlot True (\<lambda>_. 0)
        [\<lparr>strike_price = 100, call_gamma_exposure = Some 5,
          put_gamma_exposure = Some 3, total_gamma_exposure = None\<rparr>] ''all'')
     = puts (createGammaExposurePlot False (\<lambda>_. 1 / 2)
        [\<lparr>strike_price = 100, call_gamma_exposure = Some 5,
          put_gamma_exposure = Some 3, total_gamma_exposure = None\<rparr>] ''all'')"
  (is "?recs \<noteq> [] \<and> ?same_plot \<and> ?same_puts")
proof -
  have h: "?recs \<noteq> []" by simp
  note t = series_deterministic_theme_independent [OF h, of True "\<lambda>_. 0" "''all''" "\<lambda>_. 1 / 2"]
  from t have a: ?same_plot by (rule conjunct1)
  from t have b: ?same_puts by blast
  from h a b show ?thesis by blast
qed

subsection \<open>Aligned channels and the lowest strike\<close>

text \<open>
  Claim C10. For every non-empty record sequence the four channels of the plot have the
  same length, and the record of index 0 after sorting, the one with the lowest strike,
  is kept: the first strike of the plot is the minimum of the input strikes.
\<close>

theorem channels_aligned_lowest_strike_kept:
  assumes "recs \<noteq> []"
  shows "let out = createGammaExposurePlot dark rnd recs expiry
         in length (calls out) = length (strikes out)
          \<and> length (puts out) = length (strikes out)
          \<and> length (net out) = length (strikes out)
          \<and> strikes out \<noteq> []
          \<and> hd (strikes out) = Min (strike_price ` set recs)
          \<and> Min (strike_price ` set recs) \<in> set (strikes out)"
proof -
  have ne: "map strike_price (filteredData recs) \<noteq> []"
    using filteredData_nonempty[OF assms] by simp
  have "hd (map strike_price (filteredData recs)) \<in> set (map strike_price (filteredData recs))"
    using ne by (rule hd_in_set)
  then have "Min (strike_price ` set recs) \<in> set (map strike_price (filteredData recs))"
    by (simp only: min_strike_first[OF assms])
  then show ?thesis
    using ne min_strike_first[OF assms]
    by (simp add: Let_def strikes_real[OF assms] calls_real[OF assms] puts_real[OF assms]
        net_real[OF assms])
qed

theorem channels_aligned_lowest_strike_kept_witness:
  "[\<lparr>strike_price = 100, call_gamma_exposure = Some 5,
     put_gamma_exposure = Some 3, total_gamma_exposure = Some 2\<rparr>,
    \<lparr>strike_price = 90, call_gamma_exposure = Some 1,
     put_gamma_exposure = Some 9, total_gamma_exposure = Some (- 8)\<rparr>] \<noteq> []
   \<and> hd (strikes (createGammaExposurePlot True (\<lambda>_. 0)
        [\<lparr>strike_price = 100, call_gamma_exposure = Some 5,
          put_gamma_exposure = Some 3, total_gamma_exposure = Some 2\<rparr>,
         \<lparr>strike_price = 90, call_gamma_exposure = Some 1,
          put_gamma_exposure = Some 9, total_gamma_exposure = Some (- 8)\<rparr>] ''all'')) = 90
   \<and> length (net (createGammaExposurePlot True (\<lambda>_. 0)
        [\<lparr>strike_price = 100, call_gamma_exposure = Some 5,
          put_gamma_exposure = Some 3, total_gamma_exposure = Some 2\<rparr>,
         \<lparr>strike_price = 90, call_gamma_exposure = Some 1,
          put_gamma_exposure = Some 9, total_gamma_exposure = Some (- 8)\<rparr>] ''all'')) = 2"
  using channels_aligned_lowest_strike_kept
    [of "[\<lparr>strike_price = 100, call_gamma_exposure = Some 5,
           put_gamma_exposure = Some 3, total_gamma_exposure = Some 2\<rparr>,
          \<lparr>strike_price = 90, call_gamma_exposure = Some 1,
           put_gamma_exposure = Some 9, total_gamma_exposure = Some (- 8)\<rparr>]"
        True "\<lambda>_. 0" "''all''"]
  by (simp add: Let_def strikes_real net_real filteredData_example)

section \<open>Properties of the page\<close>

subsection \<open>What one handler does to the page\<close>

lemma fetch_fields:
  "requests (fetch r s) = requests s @ [(r, True)]"
  "gamma_exposure_chart (fetch r s) = gamma_exposure_chart s"
  "expiry_select (fetch r s) = expiry_select s"
  by (simp_all add: fetch_def)

lemma initGammaExposureChart_eq:
  "gamma_exposure_chart s \<noteq> None \<Longrightarrow>
   initGammaExposureChart s =
     s\<lparr>gamma_exposure_chart := Some Loading_data,
       requests := requests s @ [(Gamma_exposure (selectedExpiry s), True)]\<rparr>"
  by (auto simp: initGammaExposureChart_def fetch_def split: option.splits)

lemma refreshData_eq:
  "gamma_exposure_chart s \<noteq> None \<Longrightarrow>
   refreshData s =
     s\<lparr>gamma_exposure_chart := Some Loading_data,
       requests := requests s @ [(Market_metrics, True), (Gamma_exposure (selectedExpiry s), True)]\<rparr>"
  by (simp add: refreshData_def loadMarketData_def initGammaExposureChart_eq fetch_def selectedExpiry_def)

lemma fetched_append: "fetched (s\<lparr>requests := requests s @ rs\<rparr>) = fetched s @ map (\<lambda>(r, p). url_of r) rs"
  by (simp add: fetched_def)

lemma toggleTheme_eq:
  assumes "gamma_exposure_chart s \<noteq> None"
  shows "requests (toggleTheme s) = requests s @ [(Gamma_exposure (selectedExpiry s), True)]"
    and "gamma_exposure_chart (toggleTheme s) = Some Loading_data"
    and "stored_theme (toggleTheme s) = Some (if isDarkMode s then ''light'' else ''dark'')"
    and "body_class (toggleTheme s) =
           (if isDarkMode s then classList_replace ''dark-mode'' ''light-mode'' (body_class s)
            else classList_replace ''light-mode'' ''dark-mode'' (body_class s))"
    and "math_random (toggleTheme s) = math_random s"
    and "theme_toggle (toggleTheme s) = (if isDarkMode (toggleTheme s) then Fa_sun else Fa_moon)"
    and "spot_value (toggleTheme s) = spot_value s"
    and "change_value (toggleTheme s) = change_value s"
    and "change_absolute (toggleTheme s) = change_absolute s"
    and "spot_timestamp (toggleTheme s) = spot_timestamp s"
  using assms
  by (auto simp: toggleTheme_def Let_def initGammaExposureChart_def fetch_def
      initTradingViewWidget_def updateThemeToggleIcon_def isDarkMode_def selectedExpiry_def
      split: option.splits)

lemma isDarkMode_toggleTheme:
  assumes "gamma_exposure_chart s \<noteq> None"
    and "''dark-mode'' \<in> body_class s \<or> ''light-mode'' \<in> body_class s"
  shows "isDarkMode (toggleTheme s) = (\<not> isDarkMode s)"
  using assms(2) unfolding isDarkMode_def toggleTheme_eq(4)[OF assms(1)]
  by (auto simp: isDarkMode_def classList_replace_def)

lemma market_settled_ok:
  "response_ok st \<Longrightarrow>
   market_settled (Http st (Some d)) s =
     (case updateMarketDisplay d s of Returned s' \<Rightarrow> s' | Threw s' \<Rightarrow> market_catch s')"
  by (simp add: market_settled_def)


text \<open>What the market handler leaves of the page, whichever way it ends.\<close>

lemma market_settled_ok_fields:
  assumes "response_ok st"
  shows "spot_value (market_settled (Http st (Some d)) s)
           = map_option (\<lambda>_. Fixed2 (spot_price d)) (spot_value s)"
    and "change_absolute (market_settled (Http st (Some d)) s)
           = map_option (\<lambda>_. Signed_fixed2 (price_change d)) (change_absolute s)"
    and "gamma_exposure_chart (market_settled (Http st (Some d)) s) = gamma_exposure_chart s"
    and "requests (market_settled (Http st (Some d)) s) = requests s"
    and "expiry_select (market_settled (Http st (Some d)) s) = expiry_select s"
    and "timestamp d = Valid_time t \<Longrightarrow> console (market_settled (Http st (Some d)) s) = console s"
    and "change_value (market_settled (Http st (Some d)) s)
           = map_option
               (\<lambda>el. \<lparr>ce_text = Signed_percent (price_change_pct d),
                      ce_classes =
                        (if price_change d \<ge> 0
                         then insert ''positive'' (ce_classes el - {''negative''})
                         else insert ''negative'' (ce_classes el - {''positive''}))\<rparr>)
               (change_value s)"
    and "tradingview_container (market_settled (Http st (Some d)) s) = tradingview_container s"
  using assms
  by (simp_all add: market_settled_def updateMarketDisplay_def Let_def market_catch_def
      split: option.splits iso_time.splits)


lemma step_market:
  "i < length (requests s) \<Longrightarrow> requests s ! i = (Market_metrics, True) \<Longrightarrow>
   step s (Market_metrics_settled i r)
     = market_settled r (s\<lparr>requests := (requests s)[i := (Market_metrics, False)]\<rparr>)"
  by simp

lemma step_gamma:
  "i < length (requests s) \<Longrightarrow> requests s ! i = (Gamma_exposure e, True) \<Longrightarrow>
   step s (Gamma_exposure_settled i r)
     = gamma_settled e r (s\<lparr>requests := (requests s)[i := (Gamma_exposure e, False)]\<rparr>)"
  by simp






lemma className_dark_mode: "className_tokens (''dark'' @ ''-mode'') = {''dark-mode''}"
  by (simp add: className_tokens_def is_space_def)

lemma loaded_index:
  "DOMContentLoaded (index_html None rnd) =
     Returned
      ((index_html None rnd)
         \<lparr>tradingview_container := Some (Tv_widget ''dark'' ''#242937''),
          gamma_exposure_chart := Some Loading_data,
          requests := [(Gamma_exposure ''all'', True), (Market_metrics, True)]\<rparr>)"
  unfolding DOMContentLoaded_def Let_def
  by (simp add: className_dark_mode index_html_def loadMarketData_def fetch_def
      initGammaExposureChart_def initTradingViewWidget_def updateThemeToggleIcon_def
      selectedExpiry_def isDarkMode_def del: append.simps)

lemma loaded_index_fields:
  "requests (page_of (DOMContentLoaded (index_html None rnd)))
     = [(Gamma_exposure ''all'', True), (Market_metrics, True)]"
  "gamma_exposure_chart (page_of (DOMContentLoaded (index_html None rnd))) = Some Loading_data"
  "expiry_select (page_of (DOMContentLoaded (index_html None rnd))) = Some ''all''"
  "body_class (page_of (DOMContentLoaded (index_html None rnd))) = {''dark-mode''}"
  "math_random (page_of (DOMContentLoaded (index_html None rnd))) = rnd"
  "spot_value (page_of (DOMContentLoaded (index_html None rnd))) = Some (Literal ''5667.00'')"
  "console (page_of (DOMContentLoaded (index_html None rnd))) = []"
  unfolding loaded_index by (simp_all add: index_html_def)

lemma gamma_settled_ok_fields:
  assumes "response_ok st"
  shows "gamma_exposure_chart (gamma_settled e (Http st (Some d)) s)
           = Some (Chart (createGammaExposurePlot (isDarkMode s) (math_random s) d e))"
    and "requests (gamma_settled e (Http st (Some d)) s) = requests s"
    and "expiry_select (gamma_settled e (Http st (Some d)) s) = expiry_select s"
    and "body_class (gamma_settled e (Http st (Some d)) s) = body_class s"
  using assms by (simp_all add: gamma_settled_def)

subsection \<open>Triggers while fetches are in flight\<close>

text \<open>
  Claim C1, as stated: of two refresh triggers, the second issued while the fetches of the
  first are in flight, only one runs and no endpoint is fetched twice. \<open>dashboard.js\<close> has
  no in-flight guard. On the page of \<open>index.html\<close>, the timer followed by a change of the
  customer filter, with nothing settled in between, leaves three fetches in flight, two of
  them for the same gamma-exposure URL, and the page differs from the one after the timer
  alone.
\<close>

theorem single_flight_counterexample:
  "in_flight (run (index_html None (\<lambda>_. 0)) [Interval_elapsed, Customer_select_change])
     = [Market_metrics, Gamma_exposure ''all'', Gamma_exposure ''all'']
   \<and> fetched (run (index_html None (\<lambda>_. 0)) [Interval_elapsed, Customer_select_change])
     = [''/api/market-metrics/'', ''/api/gamma-exposure/?expiry_filter=all'',
        ''/api/gamma-exposure/?expiry_filter=all'']
   \<and> \<not> distinct (fetched (run (index_html None (\<lambda>_. 0)) [Interval_elapsed, Customer_select_change]))
   \<and> run (index_html None (\<lambda>_. 0)) [Interval_elapsed, Customer_select_change]
       \<noteq> run (index_html None (\<lambda>_. 0)) [Interval_elapsed]"
  by (simp add: run_def refreshData_def loadMarketData_def initGammaExposureChart_def fetch_def
      updateGammaExposureChart_def in_flight_def fetched_def selectedExpiry_def index_html_def url_of_def)

text \<open>
  Claim C1, amended: every trigger fetches, whatever is in flight. On a page that has the
  chart container, \<open>refreshData\<close> adds one market-metrics fetch and one gamma-exposure
  fetch to those in flight, a filter change adds one gamma-exposure fetch, and two
  triggers in a row add the fetches of both; the fetches already in flight stay so.
\<close>

theorem every_trigger_fetches:
  assumes "gamma_exposure_chart s \<noteq> None"
  shows "in_flight (refreshData s) = in_flight s @ [Market_metrics, Gamma_exposure (selectedExpiry s)]
       \<and> fetched (refreshData s)
           = fetched s @ [url_of Market_metrics, url_of (Gamma_exposure (selectedExpiry s))]
       \<and> in_flight (updateGammaExposureChart s) = in_flight s @ [Gamma_exposure (selectedExpiry s)]
       \<and> in_flight (run s [Interval_elapsed, Interval_elapsed])
           = in_flight s @ [Market_metrics, Gamma_exposure (selectedExpiry s),
                            Market_metrics, Gamma_exposure (selectedExpiry s)]
       \<and> in_flight (run s [Interval_elapsed, Customer_select_change])
           = in_flight s @ [Market_metrics, Gamma_exposure (selectedExpiry s),
                            Gamma_exposure (selectedExpiry s)]"
  using assms
  by (simp add: run_def refreshData_eq initGammaExposureChart_eq updateGammaExposureChart_def
      in_flight_def fetched_def selectedExpiry_def)

theorem every_trigger_fetches_witness:
  "gamma_exposure_chart (page_of (DOMContentLoaded (index_html None (\<lambda>_. 0)))) \<noteq> None
   \<and> in_flight (page_of (DOMContentLoaded (index_html None (\<lambda>_. 0))))
       = [Gamma_exposure ''all'', Market_metrics]
   \<and> in_flight (run (page_of (DOMContentLoaded (index_html None (\<lambda>_. 0))))
                  [Interval_elapsed, Customer_select_change])
       = [Gamma_exposure ''all'', Market_metrics,
          Market_metrics, Gamma_exposure ''all'', Gamma_exposure ''all'']"
  (is "?chart \<and> ?before \<and> ?after")
proof -
  have c: ?chart and b: ?before
    by (simp_all add: loaded_index_fields in_flight_def)
  from every_trigger_fetches [OF c] b have ?after by (simp add: selectedExpiry_def loaded_index_fields)
  with c b show ?thesis by blast
qed

subsection \<open>The theme toggle\<close>

text \<open>
  Claim C2, as stated: with a chart rendered and nothing in flight, a theme toggle redraws
  the series it has and fetches nothing. The script keeps no series: after the page of
  \<open>index.html\<close> has loaded and both fetches have settled, nothing is in flight and the chart
  shows the plot; a click on the theme button puts one gamma-exposure fetch in flight and
  replaces the chart by the loading message.
\<close>

theorem theme_toggle_zero_fetch_counterexample:
  "in_flight (run (page_of (DOMContentLoaded (index_html None (\<lambda>_. 0))))
       [Gamma_exposure_settled 0 (Http 200 (Some
          [\<lparr>strike_price = 100, call_gamma_exposure = Some 5,
            put_gamma_exposure = Some 3, total_gamma_exposure = Some 2\<rparr>])),
        Market_metrics_settled 1 (Http 200 (Some
          \<lparr>spot_price = 5670, price_change = 3, price_change_pct = 1 / 2,
           timestamp = Valid_time ''2025-01-02T15:04:05Z''\<rparr>))]) = []
  \<and> gamma_exposure_chart (run (page_of (DOMContentLoaded (index_html None (\<lambda>_. 0))))
       [Gamma_exposure_settled 0 (Http 200 (Some
          [\<lparr>strike_price = 100, call_gamma_exposure = Some 5,
            put_gamma_exposure = Some 3, total_gamma_exposure = Some 2\<rparr>])),
        Market_metrics_settled 1 (Http 200 (Some
          \<lparr>spot_price = 5670, price_change = 3, price_change_pct = 1 / 2,
           timestamp = Valid_time ''2025-01-02T15:04:05Z''\<rparr>))])
     = Some (Chart (createGammaExposurePlot True (\<lambda>_. 0)
          [\<lparr>strike_price = 100, call_gamma_exposure = Some 5,
            put_gamma_exposure = Some 3, total_gamma_exposure = Some 2\<rparr>] ''all''))
  \<and> in_flight (run (page_of (DOMContentLoaded (index_html None (\<lambda>_. 0))))
       [Gamma_exposure_settled 0 (Http 200 (Some
          [\<lparr>strike_price = 100, call_gamma_exposure = Some 5,
            put_gamma_exposure = Some 3, total_gamma_exposure = Some 2\<rparr>])),
        Market_metrics_settled 1 (Http 200 (Some
          \<lparr>spot_price = 5670, price_change = 3, price_change_pct = 1 / 2,
           timestamp = Valid_time ''2025-01-02T15:04:05Z''\<rparr>)),
        Theme_toggle_click]) = [Gamma_exposure ''all'']
  \<and> gamma_exposure_chart (run (page_of (DOMContentLoaded (index_html None (\<lambda>_. 0))))
       [Gamma_exposure_settled 0 (Http 200 (Some
          [\<lparr>strike_price = 100, call_gamma_exposure = Some 5,
            put_gamma_exposure = Some 3, total_gamma_exposure = Some 2\<rparr>])),
        Market_metrics_settled 1 (Http 200 (Some
          \<lparr>spot_price = 5670, price_change = 3, price_change_pct = 1 / 2,
           timestamp = Valid_time ''2025-01-02T15:04:05Z''\<rparr>)),
        Theme_toggle_click]) = Some Loading_data"
  (is "in_flight (run ?L [?e1, ?e2]) = [] \<and> gamma_exposure_chart (run ?L [?e1, ?e2]) = Some (Chart ?p)
       \<and> in_flight (run ?L [?e1, ?e2, Theme_toggle_click]) = [Gamma_exposure ''all'']
       \<and> gamma_exposure_chart (run ?L [?e1, ?e2, Theme_toggle_click]) = Some Loading_data")
proof -
  have ok: "response_ok 200" by (simp add: response_ok_def)
  let ?recs = "[\<lparr>strike_price = 100, call_gamma_exposure = Some 5,
            put_gamma_exposure = Some 3, total_gamma_exposure = Some 2\<rparr>]"
  let ?d = "\<lparr>spot_price = 5670, price_change = 3, price_change_pct = 1 / 2,
           timestamp = Valid_time ''2025-01-02T15:04:05Z''\<rparr>"
  let ?s1 = "gamma_settled ''all'' (Http 200 (Some ?recs))
               (?L\<lparr>requests := (requests ?L)[0 := (Gamma_exposure ''all'', False)]\<rparr>)"
  have s1: "step ?L ?e1 = ?s1"
    by (rule step_gamma) (simp_all add: loaded_index_fields)
  have r1: "requests ?s1 = [(Gamma_exposure ''all'', False), (Market_metrics, True)]"
    and c1: "gamma_exposure_chart ?s1 = Some (Chart ?p)"
    and e1: "expiry_select ?s1 = Some ''all''"
    by (simp_all add: gamma_settled_ok_fields[OF ok] loaded_index_fields isDarkMode_def)
  let ?s2 = "market_settled (Http 200 (Some ?d))
               (?s1\<lparr>requests := (requests ?s1)[1 := (Market_metrics, False)]\<rparr>)"
  have s2: "step ?s1 ?e2 = ?s2"
    by (rule step_market) (simp_all add: r1)
  have r2: "requests ?s2 = [(Gamma_exposure ''all'', False), (Market_metrics, False)]"
    unfolding market_settled_ok_fields(4)[OF ok] by (simp add: r1)
  have c2: "gamma_exposure_chart ?s2 = Some (Chart ?p)"
    unfolding market_settled_ok_fields(3)[OF ok] by (simp add: c1)
  have e2: "expiry_select ?s2 = Some ''all''"
    unfolding market_settled_ok_fields(5)[OF ok] by (simp add: e1)
  have run2: "run ?L [?e1, ?e2] = ?s2" by (simp only: run_def foldl.simps s1 s2)
  have run3: "run ?L [?e1, ?e2, Theme_toggle_click] = toggleTheme ?s2"
    by (simp only: run_def foldl.simps s1 s2) (simp only: step.simps(2))
  have ne: "gamma_exposure_chart ?s2 \<noteq> None" by (simp only: c2) simp
  have a: "in_flight (run ?L [?e1, ?e2]) = []"
    unfolding run2 in_flight_def r2 by simp
  have b: "gamma_exposure_chart (run ?L [?e1, ?e2]) = Some (Chart ?p)"
    unfolding run2 by (rule c2)
  have c: "in_flight (run ?L [?e1, ?e2, Theme_toggle_click]) = [Gamma_exposure ''all'']"
    unfolding run3 in_flight_def toggleTheme_eq(1)[OF ne] r2 selectedExpiry_def e2 by simp
  have d: "gamma_exposure_chart (run ?L [?e1, ?e2, Theme_toggle_click]) = Some Loading_data"
    unfolding run3 by (rule toggleTheme_eq(2)[OF ne])
  from a b c d show ?thesis by blast
qed

text \<open>
  Claim C2, amended: on a page that has the chart container and whose body carries
  \<open>dark-mode\<close> or \<open>light-mode\<close> (so whenever a series has been rendered, a fetch pending
  or not), a theme toggle flips the mode and stores it. The market snapshot on display
  (spot value, percentage and absolute change, time stamp) keeps its last-known values,
  and no market-metrics fetch is issued. The exposure chart is not redrawn from the
  series it shows: it is replaced by the loading message and exactly one more network
  call is issued, a gamma-exposure fetch for the selected expiry; the chart is drawn in
  the new colours when that fetch settles with an ok status and a body that decodes,
  from the records it brings.
\<close>

theorem theme_toggle_refetches:
  assumes "gamma_exposure_chart s \<noteq> None"
    and "''dark-mode'' \<in> body_class s \<or> ''light-mode'' \<in> body_class s"
  shows "isDarkMode (toggleTheme s) = (\<not> isDarkMode s)
       \<and> stored_theme (toggleTheme s) = Some (if isDarkMode s then ''light'' else ''dark'')
       \<and> spot_value (toggleTheme s) = spot_value s
       \<and> change_value (toggleTheme s) = change_value s
       \<and> change_absolute (toggleTheme s) = change_absolute s
       \<and> spot_timestamp (toggleTheme s) = spot_timestamp s
       \<and> gamma_exposure_chart (toggleTheme s) = Some Loading_data
       \<and> fetched (toggleTheme s) = fetched s @ [url_of (Gamma_exposure (selectedExpiry s))]
       \<and> in_flight (toggleTheme s) = in_flight s @ [Gamma_exposure (selectedExpiry s)]
       \<and> (response_ok st \<longrightarrow>
            gamma_exposure_chart
              (step (toggleTheme s)
                 (Gamma_exposure_settled (length (requests s)) (Http st (Some d))))
            = Some (Chart (createGammaExposurePlot (\<not> isDarkMode s) (math_random s) d
                             (selectedExpiry s))))"
proof -
  note t = toggleTheme_eq[OF assms(1)]
  have dm: "isDarkMode (toggleTheme s) = (\<not> isDarkMode s)"
    using assms by (rule isDarkMode_toggleTheme)
  have dm': "isDarkMode (toggleTheme s\<lparr>requests := rs\<rparr>) = (\<not> isDarkMode s)" for rs
    using dm by (simp add: isDarkMode_def)
  have last: "response_ok st \<longrightarrow>
            gamma_exposure_chart
              (step (toggleTheme s)
                 (Gamma_exposure_settled (length (requests s)) (Http st (Some d))))
            = Some (Chart (createGammaExposurePlot (\<not> isDarkMode s) (math_random s) d
                             (selectedExpiry s)))"
    by (simp add: t(1,5) gamma_settled_def dm')
  show ?thesis
    using dm last by (simp add: t fetched_def in_flight_def)
qed

theorem theme_toggle_refetches_witness:
  "gamma_exposure_chart (page_of (DOMContentLoaded (index_html None (\<lambda>_. 0)))) \<noteq> None
   \<and> ''dark-mode'' \<in> body_class (page_of (DOMContentLoaded (index_html None (\<lambda>_. 0))))
   \<and> response_ok 204
   \<and> \<not> isDarkMode (toggleTheme (page_of (DOMContentLoaded (index_html None (\<lambda>_. 0)))))
   \<and> stored_theme (toggleTheme (page_of (DOMContentLoaded (index_html None (\<lambda>_. 0)))))
       = Some ''light''
   \<and> spot_value (toggleTheme (page_of (DOMContentLoaded (index_html None (\<lambda>_. 0)))))
       = Some (Literal ''5667.00'')
   \<and> fetched (toggleTheme (page_of (DOMContentLoaded (index_html None (\<lambda>_. 0)))))
       = [''/api/gamma-exposure/?expiry_filter=all'', ''/api/market-metrics/'',
          ''/api/gamma-exposure/?expiry_filter=all'']
   \<and> gamma_exposure_chart
        (step (toggleTheme (page_of (DOMContentLoaded (index_html None (\<lambda>_. 0)))))
           (Gamma_exposure_settled 2 (Http 204 (Some
              [\<lparr>strike_price = 100, call_gamma_exposure = Some 5,
                put_gamma_exposure = Some 3, total_gamma_exposure = Some 2\<rparr>]))))
       = Some (Chart (createGammaExposurePlot False (\<lambda>_. 0)
              [\<lparr>strike_price = 100, call_gamma_exposure = Some 5,
                put_gamma_exposure = Some 3, total_gamma_exposure = Some 2\<rparr>] ''all''))"
  (is "?chart \<and> ?dark \<and> ?ok \<and> ?light \<and> ?stored \<and> ?spot \<and> ?urls \<and> ?drawn")
proof -
  let ?L = "page_of (DOMContentLoaded (index_html None (\<lambda>_. 0)))"
  have c: ?chart and d: ?dark
    by (simp_all add: loaded_index_fields)
  have ok: ?ok by (simp add: response_ok_def)
  from d have d': "''dark-mode'' \<in> body_class ?L \<or> ''light-mode'' \<in> body_class ?L" ..
  have dm: "isDarkMode ?L"
    using d by (simp add: isDarkMode_def)
  have f: "fetched ?L = [''/api/gamma-exposure/?expiry_filter=all'', ''/api/market-metrics/'']"
    by (simp add: fetched_def loaded_index_fields url_of_def)
  have n: "length (requests ?L) = 2" by (simp add: loaded_index_fields)
  note t = theme_toggle_refetches [OF c d', of 204
      "[\<lparr>strike_price = 100, call_gamma_exposure = Some 5,
         put_gamma_exposure = Some 3, total_gamma_exposure = Some 2\<rparr>]"]
  from t dm have l: ?light by simp
  from t dm have s: ?stored by simp
  from t have sp: ?spot by (simp add: loaded_index_fields)
  from t f have u: ?urls by (simp add: selectedExpiry_def loaded_index_fields url_of_def)
  have se: "selectedExpiry ?L = ''all''"
    by (simp add: selectedExpiry_def loaded_index_fields)
  have mr: "math_random ?L = (\<lambda>_. 0)"
    by (simp add: loaded_index_fields)
  have nd: "(\<not> isDarkMode ?L) = False"
    using dm by simp
  from t [unfolded n] ok have dr: ?drawn
    unfolding se mr nd by blast
  from c d ok l s sp u dr show ?thesis by blast
qed

subsection \<open>A failed exposure fetch beside a successful market fetch\<close>



section \<open>Properties of the second script\<close>

text \<open>
  Claim C8. While \<open>pauseUpdates\<close> is true, the timer (\<open>refreshData\<close> of this variant) and
  the two load calls (also through \<open>refreshCharts\<close>) leave the page exactly as it is: no
  call is issued, nothing is drawn, nothing is logged. A change of the expiry dropdown
  records the new filter, and its load call issues nothing and draws nothing either.
\<close>

theorem paused_triggers_are_noops:
  assumes "pauseUpdates s"
  shows "jq_step s Jq_interval_elapsed = s
       \<and> refreshData_jq s = s
       \<and> loadMarketMetrics s = s
       \<and> loadGammaExposureData s = s
       \<and> refreshCharts s = s
       \<and> ajax_calls (jq_step s (Expiry_filter_change v)) = ajax_calls s
       \<and> gammaPlot (jq_step s (Expiry_filter_change v)) = gammaPlot s
       \<and> ajax_calls (refreshData_jq s) = ajax_calls s
       \<and> metric_1_value (refreshData_jq s) = metric_1_value s
       \<and> gammaPlot (refreshData_jq s) = gammaPlot s
       \<and> jq_console (refreshData_jq s) = jq_console s"
  using assms
  by (simp add: refreshData_jq_def loadMarketMetrics_def loadGammaExposureData_def
      refreshCharts_def)

theorem paused_triggers_are_noops_witness:
  "pauseUpdates \<lparr>pauseUpdates = True, currentExpiryFilter = ''All'', darkMode = True,
                 metric_1_value = None, gammaPlot = None, jq_console = [], ajax_calls = []\<rparr>
   \<and> ajax_calls (jq_step \<lparr>pauseUpdates = True, currentExpiryFilter = ''All'', darkMode = True,
                 metric_1_value = None, gammaPlot = None, jq_console = [], ajax_calls = []\<rparr>
                 Jq_interval_elapsed) = []
   \<and> ajax_calls (jq_step \<lparr>pauseUpdates = False, currentExpiryFilter = ''All'', darkMode = True,
                 metric_1_value = None, gammaPlot = None, jq_console = [], ajax_calls = []\<rparr>
                 Jq_interval_elapsed)
       = [(Ajax_market_metrics, True), (Ajax_gamma_exposure ''All'', True)]"
  using paused_triggers_are_noops [of "\<lparr>pauseUpdates = True, currentExpiryFilter = ''All'', darkMode = True,
                 metric_1_value = None, gammaPlot = None, jq_console = [], ajax_calls = []\<rparr>"]
  by (simp add: refreshData_jq_def loadMarketMetrics_def loadGammaExposureData_def ajax_call_def)

end
